theory Spec2Isabelle
  imports Main "HOL-Library.Word" "HOL-Library.Log_Nat"
begin

section \<open>CanonicalizedPath (Windows/DetoursServices/CanonicalizedPath.h)\<close>

text \<open>
  \<^verbatim>\<open>PathType\<close> is declared in FileAccessHelpers.h, which is not among the sources; its
  four enumerators are the ones the switch in \<^verbatim>\<open>GetPathStringWithoutTypePrefix\<close> names
  (the specification calls them Null, Standard, ExtendedPrefix and DeviceLocal).
\<close>

datatype PathType = Null | Win32 | Win32Nt | LocalDevice

type_synonym wchar_t = "16 word"
type_synonym wstring = "wchar_t list"

text \<open>
  \<^verbatim>\<open>m_value\<close> is a \<^verbatim>\<open>std::shared_ptr<std::wstring>\<close>; \<open>None\<close> is the empty shared pointer.
  The string is never written after its creation, so sharing the storage between copies is
  not observable and the field holds the characters themselves.
\<close>

record CanonicalizedPath =
  Type :: PathType
  m_value :: "wstring option"




text \<open>\<^verbatim>\<open>CanonicalizedPath()\<close>\<close>

definition CanonicalizedPath_default :: CanonicalizedPath where
  "CanonicalizedPath_default = \<lparr>Type = Null, m_value = None\<rparr>"


text \<open>
  \<^verbatim>\<open>CanonicalizedPath(CanonicalizedPath&& other)\<close>: returns the constructed value and the
  state of \<open>other\<close> afterwards. Moving from a \<^verbatim>\<open>shared_ptr\<close> leaves it empty.
\<close>

definition CanonicalizedPath_move :: "CanonicalizedPath \<Rightarrow> CanonicalizedPath \<times> CanonicalizedPath" where
  "CanonicalizedPath_move other =
     (\<lparr>Type = Type other, m_value = m_value other\<rparr>,
      other\<lparr>m_value := None, Type := Null\<rparr>)"

definition IsNull :: "CanonicalizedPath \<Rightarrow> bool" where
  "IsNull p = (Type p = Null)"

definition Length :: "CanonicalizedPath \<Rightarrow> nat" where
  "Length p = (case m_value p of Some s \<Rightarrow> length s | None \<Rightarrow> 0)"




section \<open>SandboxedPip (MacOs/Sandbox/Src/SandboxedPip.cpp)\<close>

subsection \<open>Kernel objects\<close>

text \<open>
  Objects of the kernel heap that the tracker points to. A pointer is an \<open>addr option\<close>,
  \<open>None\<close> being \<^verbatim>\<open>nullptr\<close>. Every object is an \<^verbatim>\<open>OSObject\<close> with a retain count; of a
  \<^verbatim>\<open>Trie\<close> and a \<^verbatim>\<open>ThreadLocal\<close> only the entry count that \<^verbatim>\<open>getCount()\<close> reports is kept,
  of a \<^verbatim>\<open>Buffer\<close> its bytes, and \<open>PipObj\<close> is the storage of a \<^verbatim>\<open>SandboxedPip\<close> instance.
\<close>

type_synonym addr = nat
type_synonym byte = "8 word"

datatype object = BufferObj "byte list" | TrieObj nat | ThreadLocalObj nat | PipObj

record cell =
  obj :: object
  retainCount :: nat

text \<open>
  The heap is the list of its cells, indexed by address; a freed or never used address
  holds \<open>None\<close>. \<open>alloc_script\<close> is the environment's answer to the allocations to come,
  in order: \<open>False\<close> for an allocation that fails. When the script is used up, allocations
  succeed.
\<close>

record kheap =
  cells :: "cell option list"
  alloc_script :: "bool list"

datatype fault = BadPointer | ZeroDivisor

definition cell_at :: "kheap \<Rightarrow> addr \<Rightarrow> cell option" where
  "cell_at h a = (if a < length (cells h) then cells h ! a else None)"

text \<open>Whether the \<open>k\<close>-th allocation from now on (counting from 0) succeeds.\<close>

definition alloc_succeeds :: "kheap \<Rightarrow> nat \<Rightarrow> bool" where
  "alloc_succeeds h k = (case drop k (alloc_script h) of [] \<Rightarrow> True | b # _ \<Rightarrow> b)"

definition alloc :: "object \<Rightarrow> kheap \<Rightarrow> addr option \<times> kheap" where
  "alloc ob h =
     (let ok = alloc_succeeds h 0;
          h1 = h\<lparr>alloc_script := tl (alloc_script h)\<rparr>
      in if ok
         then (Some (length (cells h)),
               h1\<lparr>cells := cells h @ [Some \<lparr>obj = ob, retainCount = 1\<rparr>]\<rparr>)
         else (None, h1))"

text \<open>\<^verbatim>\<open>p->retain()\<close>; through a null or dangling pointer it is a fault.\<close>

definition retain :: "addr option \<Rightarrow> kheap \<Rightarrow> fault + kheap" where
  "retain p h =
     (case p of
        None \<Rightarrow> Inl BadPointer
      | Some a \<Rightarrow>
          (case cell_at h a of
             None \<Rightarrow> Inl BadPointer
           | Some c \<Rightarrow> Inr (h\<lparr>cells := (cells h)[a := Some (c\<lparr>retainCount := retainCount c + 1\<rparr>)]\<rparr>)))"

text \<open>
  \<^verbatim>\<open>p->release()\<close> on an object other than a tracker: the last release frees the cell.
\<close>

definition release :: "addr \<Rightarrow> kheap \<Rightarrow> kheap" where
  "release a h =
     (case cell_at h a of
        None \<Rightarrow> h
      | Some c \<Rightarrow>
          if retainCount c \<le> 1 then h\<lparr>cells := (cells h)[a := None]\<rparr>
          else h\<lparr>cells := (cells h)[a := Some (c\<lparr>retainCount := retainCount c - 1\<rparr>)]\<rparr>)"

text \<open>\<^verbatim>\<open>OSSafeReleaseNULL(p)\<close>: releases unless null; the caller's pointer becomes null.\<close>

definition OSSafeReleaseNULL :: "addr option \<Rightarrow> kheap \<Rightarrow> kheap" where
  "OSSafeReleaseNULL p h = (case p of None \<Rightarrow> h | Some a \<Rightarrow> release a h)"

text \<open>
  \<^verbatim>\<open>OSCompareAndSwapPtr(oldValue, newValue, address)\<close> on the current content \<open>cur\<close> of
  the address: whether it swapped, and the content afterwards.
\<close>

definition OSCompareAndSwapPtr :: "addr option \<Rightarrow> addr option \<Rightarrow> addr option \<Rightarrow> bool \<times> addr option" where
  "OSCompareAndSwapPtr oldValue newValue cur =
     (if cur = oldValue then (True, newValue) else (False, cur))"

text \<open>
  Modelled from the spec: \<^verbatim>\<open>Trie::createPathTrie\<close>, \<^verbatim>\<open>Trie::getCount\<close> and
  \<^verbatim>\<open>ThreadLocal::create\<close>, whose class sources are missing. Creation allocates an empty
  decision cache (an empty per-thread lookup table) and yields null when the allocation
  fails, which is what the callers in \<^verbatim>\<open>init\<close> test for; \<^verbatim>\<open>getCount\<close> is the number of
  entries.
\<close>

definition createPathTrie :: "kheap \<Rightarrow> addr option \<times> kheap" where
  "createPathTrie h = alloc (TrieObj 0) h"

definition ThreadLocal_create :: "kheap \<Rightarrow> addr option \<times> kheap" where
  "ThreadLocal_create h = alloc (ThreadLocalObj 0) h"

definition Trie_getCount :: "kheap \<Rightarrow> addr option \<Rightarrow> fault + nat" where
  "Trie_getCount h p =
     (case p of
        None \<Rightarrow> Inl BadPointer
      | Some a \<Rightarrow>
          (case cell_at h a of
             Some c \<Rightarrow> (case obj c of TrieObj n \<Rightarrow> Inr n | _ \<Rightarrow> Inl BadPointer)
           | None \<Rightarrow> Inl BadPointer))"

definition Buffer_getBytes :: "kheap \<Rightarrow> addr option \<Rightarrow> fault + byte list" where
  "Buffer_getBytes h p =
     (case p of
        None \<Rightarrow> Inl BadPointer
      | Some a \<Rightarrow>
          (case cell_at h a of
             Some c \<Rightarrow> (case obj c of BufferObj bs \<Rightarrow> Inr bs | _ \<Rightarrow> Inl BadPointer)
           | None \<Rightarrow> Inl BadPointer))"

subsection \<open>Configuration and tracker state\<close>

text \<open>The \<^verbatim>\<open>int\<close> globals of SysCtl.hpp that the tracker reads.\<close>

record sysctl =
  g_bxl_enable_cache :: int
  g_bxl_disable_cache_min_entries :: int
  g_bxl_disable_cache_max_hit_pct :: int

text \<open>
  The parsed manifest, as far as the tracker looks at it. The parser itself
  (\<^verbatim>\<open>FileAccessManifest::init\<close>) is a parameter \<open>fam_init\<close> of the operations below.
\<close>

record FileAccessManifest =
  HasErrors :: bool
  Error :: string
  PipId :: int

record Counters =
  numCacheHits :: nat
  numCacheMisses :: nat

text \<open>
  The members of the class; a name cannot end in an underscore here, so the member
  \<^verbatim>\<open>pathCache_\<close> is the field \<open>pathCache_'\<close>, and so on.
\<close>

record SandboxedPip =
  clientPid_' :: int
  payload_' :: "addr option"
  processId_' :: int
  processTreeCount_' :: int
  counters_' :: Counters
  disableCaching_' :: bool
  cacheCallCnt_' :: nat
  fam_' :: FileAccessManifest
  oldPathCache_' :: "addr option"
  pathCache_' :: "addr option"
  lastPathLookup_' :: "addr option"

text \<open>
  The fields of an instance that \<^verbatim>\<open>new\<close> has just returned: \<^verbatim>\<open>OSObject::operator new\<close>
  hands out zero-filled memory.
\<close>

definition SandboxedPip_new :: SandboxedPip where
  "SandboxedPip_new =
     \<lparr>clientPid_' = 0, payload_' = None, processId_' = 0, processTreeCount_' = 0,
      counters_' = \<lparr>numCacheHits = 0, numCacheMisses = 0\<rparr>,
      disableCaching_' = False, cacheCallCnt_' = 0,
      fam_' = \<lparr>HasErrors = False, Error = [], PipId = 0\<rparr>,
      oldPathCache_' = None, pathCache_' = None, lastPathLookup_' = None\<rparr>"

text \<open>\<^verbatim>\<open>OSObject::init()\<close> of the kernel library always succeeds.\<close>

definition OSObject_init :: bool where
  "OSObject_init = True"

subsection \<open>Construction and destruction\<close>

definition init :: "sysctl \<Rightarrow> (byte list \<Rightarrow> FileAccessManifest) \<Rightarrow> int \<Rightarrow> int \<Rightarrow> addr option
    \<Rightarrow> SandboxedPip \<Rightarrow> kheap \<Rightarrow> fault + (bool \<times> SandboxedPip \<times> kheap)" where
  "init cfg fam_init clientPid processPid payload pip h =
     (if \<not> OSObject_init then Inr (False, pip, h)
      else
        let pip1 = pip\<lparr>clientPid_' := clientPid, payload_' := payload, processId_' := processPid,
                       processTreeCount_' := 1,
                       counters_' := \<lparr>numCacheHits = 0, numCacheMisses = 0\<rparr>,
                       disableCaching_' := (g_bxl_enable_cache cfg = 0),
                       cacheCallCnt_' := 0\<rparr>
        in case retain (payload_' pip1) h of
             Inl f \<Rightarrow> Inl f
           | Inr h1 \<Rightarrow>
               (case Buffer_getBytes h1 (payload_' pip1) of
                  Inl f \<Rightarrow> Inl f
                | Inr bytes \<Rightarrow>
                    let pip2 = pip1\<lparr>fam_' := fam_init bytes\<rparr>
                    in if HasErrors (fam_' pip2) then Inr (False, pip2, h1)
                       else
                         let pip3 = pip2\<lparr>oldPathCache_' := None\<rparr>;
                             (trie, h2) = createPathTrie h1;
                             pip4 = pip3\<lparr>pathCache_' := trie\<rparr>
                         in if pathCache_' pip4 = None then Inr (False, pip4, h2)
                            else
                              let (tbl, h3) = ThreadLocal_create h2;
                                  pip5 = pip4\<lparr>lastPathLookup_' := tbl\<rparr>
                              in if lastPathLookup_' pip5 = None then Inr (False, pip5, h3)
                                 else Inr (True, pip5, h3)))"

text \<open>
  \<^verbatim>\<open>SandboxedPip::free()\<close> of the instance stored at \<open>this\<close>: the four releases, then
  \<^verbatim>\<open>super::free()\<close>, which gives the instance's storage back. The log line reads only.
\<close>

definition free :: "addr \<Rightarrow> SandboxedPip \<Rightarrow> kheap \<Rightarrow> kheap" where
  "free this pip h =
     (let h1 = OSSafeReleaseNULL (payload_' pip) h;
          h2 = OSSafeReleaseNULL (lastPathLookup_' pip) h1;
          h3 = OSSafeReleaseNULL (pathCache_' pip) h2;
          h4 = OSSafeReleaseNULL (oldPathCache_' pip) h3
      in h4\<lparr>cells := (cells h4)[this := None]\<rparr>)"

text \<open>
  \<^verbatim>\<open>SandboxedPip::create\<close>: the address and state of the new tracker, or \<open>None\<close> for
  \<^verbatim>\<open>nullptr\<close>. The instance has retain count 1 when \<^verbatim>\<open>init\<close> fails, so
  \<^verbatim>\<open>OSSafeReleaseNULL(instance)\<close> runs \<^verbatim>\<open>free()\<close>.
\<close>

definition create :: "sysctl \<Rightarrow> (byte list \<Rightarrow> FileAccessManifest) \<Rightarrow> int \<Rightarrow> int \<Rightarrow> addr option
    \<Rightarrow> kheap \<Rightarrow> fault + ((addr \<times> SandboxedPip) option \<times> kheap)" where
  "create cfg fam_init clientPid processPid payload h =
     (case alloc PipObj h of
        (None, h1) \<Rightarrow> Inr (None, h1)
      | (Some instance, h1) \<Rightarrow>
          (case init cfg fam_init clientPid processPid payload SandboxedPip_new h1 of
             Inl f \<Rightarrow> Inl f
           | Inr (initialized, pip, h2) \<Rightarrow>
               if \<not> initialized then Inr (None, free instance pip h2)
               else Inr (Some (instance, pip), h2)))"


subsection \<open>The hit percentage\<close>

text \<open>
  \<^verbatim>\<open>PCT(a, b)\<close> is \<^verbatim>\<open>(int)(((a) * 1.0) / ((a) + (b)) * 100)\<close>: the counters are converted
  to \<^verbatim>\<open>double\<close>, divided and multiplied in \<^verbatim>\<open>double\<close>, and the result is truncated. A
  finite \<^verbatim>\<open>double\<close> is a rational number; \<open>to_double\<close> is the rounding of a non-negative
  rational to the nearest number with a 53-bit significand, ties to the even significand,
  that every conversion and every arithmetic operation of IEEE 754 binary64 applies to its
  exact result (the values met here are far from the overflow and subnormal ranges).
\<close>

definition pow2 :: "int \<Rightarrow> rat" where
  "pow2 e = (if 0 \<le> e then 2 ^ nat e else 1 / 2 ^ nat (- e))"

definition round_ties_even :: "rat \<Rightarrow> int" where
  "round_ties_even x =
     (let f = \<lfloor>x\<rfloor>; d = x - of_int f
      in if d < 1 / 2 then f
         else if 1 / 2 < d then f + 1
         else if even f then f else f + 1)"

text \<open>The binary exponent of a positive rational: \<open>pow2 e \<le> x < pow2 (e + 1)\<close>.\<close>

definition ilog2 :: "rat \<Rightarrow> int" where
  "ilog2 x = (if 1 \<le> x then bitlen \<lfloor>x\<rfloor> - 1 else - bitlen (\<lceil>1 / x\<rceil> - 1))"

definition to_double :: "rat \<Rightarrow> rat" where
  "to_double x =
     (if x = 0 then 0
      else let e = ilog2 x
           in of_int (round_ties_even (x * pow2 (52 - e))) * pow2 (e - 52))"

text \<open>
  The counters are natural numbers (their class is not among the sources). With
  \<open>a + b = 0\<close> the quotient is \<^verbatim>\<open>0.0 / 0.0\<close>, not a number, and its conversion to
  \<^verbatim>\<open>int\<close> has no defined result: \<open>None\<close>.
\<close>

definition PCT :: "nat \<Rightarrow> nat \<Rightarrow> int option" where
  "PCT a b =
     (if a + b = 0 then None
      else Some \<lfloor>to_double (to_double (to_double (of_nat a) * 1 / to_double (of_nat (a + b))) * 100)\<rfloor>)"

subsection \<open>The governor\<close>

text \<open>
  The comparison of the entry count with the threshold is the mathematical one; for a
  threshold that is not negative this is the C++ comparison whether \<^verbatim>\<open>getCount()\<close> is
  declared signed or unsigned.
\<close>

definition ShouldDisableCaching :: "sysctl \<Rightarrow> SandboxedPip \<Rightarrow> kheap \<Rightarrow> fault + bool" where
  "ShouldDisableCaching cfg pip h =
     (case Trie_getCount h (pathCache_' pip) of
        Inl f \<Rightarrow> Inl f
      | Inr n \<Rightarrow>
          if g_bxl_disable_cache_min_entries cfg < int n
          then (case PCT (numCacheHits (counters_' pip)) (numCacheMisses (counters_' pip)) of
                  None \<Rightarrow> Inl ZeroDivisor
                | Some pct \<Rightarrow> Inr (pct < g_bxl_disable_cache_max_hit_pct cfg))
          else Inr False)"

text \<open>
  The disable transition of \<^verbatim>\<open>RefreshDisableCaching\<close> in two steps, so that the state
  can be another one when the compare-and-swap runs than when \<^verbatim>\<open>pathCache_\<close> was read:
  \<open>RefreshDisableCaching_begin\<close> sets the flag, reads \<^verbatim>\<open>oldCache\<close> and creates
  \<^verbatim>\<open>newCache\<close>; \<open>RefreshDisableCaching_swap\<close> is the compare-and-swap with its two
  branches.
\<close>

definition RefreshDisableCaching_begin :: "SandboxedPip \<Rightarrow> kheap
    \<Rightarrow> addr option \<times> addr option \<times> SandboxedPip \<times> kheap" where
  "RefreshDisableCaching_begin pip h =
     (let pip1 = pip\<lparr>disableCaching_' := True\<rparr>;
          oldCache = pathCache_' pip1;
          (newCache, h1) = createPathTrie h
      in (oldCache, newCache, pip1, h1))"

definition RefreshDisableCaching_swap :: "addr option \<Rightarrow> addr option \<Rightarrow> SandboxedPip \<Rightarrow> kheap
    \<Rightarrow> SandboxedPip \<times> kheap" where
  "RefreshDisableCaching_swap oldCache newCache pip h =
     (let (swapped, cur) = OSCompareAndSwapPtr oldCache newCache (pathCache_' pip);
          pip1 = pip\<lparr>pathCache_' := cur\<rparr>
      in if swapped then (pip1\<lparr>oldPathCache_' := oldCache\<rparr>, h)
         else (pip1, OSSafeReleaseNULL newCache h))"

definition RefreshDisableCaching :: "sysctl \<Rightarrow> SandboxedPip \<Rightarrow> kheap
    \<Rightarrow> fault + (bool \<times> SandboxedPip \<times> kheap)" where
  "RefreshDisableCaching cfg pip h =
     (if \<not> disableCaching_' pip
      then (case ShouldDisableCaching cfg pip h of
              Inl f \<Rightarrow> Inl f
            | Inr should \<Rightarrow>
                if should
                then let (oldCache, newCache, pip1, h1) = RefreshDisableCaching_begin pip h;
                         (pip2, h2) = RefreshDisableCaching_swap oldCache newCache pip1 h1
                     in Inr (disableCaching_' pip2, pip2, h2)
                else Inr (disableCaching_' pip, pip, h))
      else Inr (disableCaching_' pip, pip, h))"

subsection \<open>Introspection and runs of operations\<close>

record PipInfo =
  pid :: int
  clientPid :: int
  pipId :: int
  cacheSize :: nat
  treeSize :: int
  counters :: Counters
  numReportedChildren :: nat

text \<open>
  The accessors are inline members declared in SandboxedPip.hpp, which is not among the
  sources; each reads the member it is named after, \<^verbatim>\<open>getPathCacheElemCount\<close> through
  \<^verbatim>\<open>pathCache_->getCount()\<close>.
\<close>

definition introspect :: "SandboxedPip \<Rightarrow> kheap \<Rightarrow> fault + PipInfo" where
  "introspect pip h =
     (case Trie_getCount h (pathCache_' pip) of
        Inl f \<Rightarrow> Inl f
      | Inr n \<Rightarrow>
          Inr \<lparr>pid = processId_' pip, clientPid = clientPid_' pip, pipId = PipId (fam_' pip),
               cacheSize = n, treeSize = processTreeCount_' pip, counters = counters_' pip,
               numReportedChildren = 0\<rparr>)"

text \<open>
  The operations of a live tracker that this file defines, and the states a sequence of
  them goes through; a fault ends the run.
\<close>

datatype pip_op = OpRefreshDisableCaching | OpIntrospect

definition exec_op :: "sysctl \<Rightarrow> pip_op \<Rightarrow> SandboxedPip \<times> kheap \<Rightarrow> fault + (SandboxedPip \<times> kheap)" where
  "exec_op cfg op st =
     (case op of
        OpRefreshDisableCaching \<Rightarrow>
          (case RefreshDisableCaching cfg (fst st) (snd st) of
             Inl f \<Rightarrow> Inl f
           | Inr (_, pip', h') \<Rightarrow> Inr (pip', h'))
      | OpIntrospect \<Rightarrow>
          (case introspect (fst st) (snd st) of Inl f \<Rightarrow> Inl f | Inr _ \<Rightarrow> Inr st))"

fun trace_ops :: "sysctl \<Rightarrow> pip_op list \<Rightarrow> SandboxedPip \<times> kheap \<Rightarrow> (SandboxedPip \<times> kheap) list" where
  "trace_ops cfg [] st = [st]"
| "trace_ops cfg (op # ops) st =
     st # (case exec_op cfg op st of Inl f \<Rightarrow> [] | Inr st' \<Rightarrow> trace_ops cfg ops st')"

text \<open>
  The values of \<^verbatim>\<open>disableCaching_\<close> along a run, and the number of places where a list
  of flags goes from false to true.
\<close>

definition flags :: "(SandboxedPip \<times> kheap) list \<Rightarrow> bool list" where
  "flags sts = map (\<lambda>s. disableCaching_' (fst s)) sts"

fun rises :: "bool list \<Rightarrow> nat" where
  "rises (a # b # bs) = (if \<not> a \<and> b then 1 else 0) + rises (b # bs)"
| "rises bs = 0"

subsection \<open>The caller of the governor\<close>

text \<open>
  Modelled from the spec: the part of the tracker's \<^verbatim>\<open>resolve\<close> path that drives the
  governor, whose code is missing from the sources. After a probe of the decision cache the
  hit counter or the miss counter is incremented; a miss is followed by an insert when
  caching is enabled; then the governor is evaluated. \<^verbatim>\<open>Trie\<close> insertion is modelled by
  its effect on the entry count.
\<close>

datatype probe = Hit | Miss

definition Trie_insert :: "addr option \<Rightarrow> kheap \<Rightarrow> kheap" where
  "Trie_insert p h =
     (case p of
        None \<Rightarrow> h
      | Some a \<Rightarrow>
          (case cell_at h a of
             None \<Rightarrow> h
           | Some c \<Rightarrow>
               (case obj c of
                  TrieObj n \<Rightarrow> h\<lparr>cells := (cells h)[a := Some (c\<lparr>obj := TrieObj (n + 1)\<rparr>)]\<rparr>
                | _ \<Rightarrow> h)))"

definition count_probe :: "probe \<Rightarrow> Counters \<Rightarrow> Counters" where
  "count_probe p c =
     (case p of
        Hit \<Rightarrow> c\<lparr>numCacheHits := numCacheHits c + 1\<rparr>
      | Miss \<Rightarrow> c\<lparr>numCacheMisses := numCacheMisses c + 1\<rparr>)"

definition governor_probe :: "sysctl \<Rightarrow> probe \<Rightarrow> SandboxedPip \<times> kheap \<Rightarrow> fault + (SandboxedPip \<times> kheap)" where
  "governor_probe cfg p st =
     (let pip1 = (fst st)\<lparr>counters_' := count_probe p (counters_' (fst st))\<rparr>;
          h1 = (if p = Miss \<and> \<not> disableCaching_' pip1
                then Trie_insert (pathCache_' pip1) (snd st) else snd st)
      in case RefreshDisableCaching cfg pip1 h1 of
           Inl f \<Rightarrow> Inl f
         | Inr (_, pip', h') \<Rightarrow> Inr (pip', h'))"

fun run_probes :: "sysctl \<Rightarrow> probe list \<Rightarrow> SandboxedPip \<times> kheap \<Rightarrow> fault + (SandboxedPip \<times> kheap)" where
  "run_probes cfg [] st = Inr st"
| "run_probes cfg (p # ps) st =
     (case governor_probe cfg p st of Inl f \<Rightarrow> Inl f | Inr st' \<Rightarrow> run_probes cfg ps st')"

subsection \<open>A tracker at work\<close>

text \<open>
  A configuration, and a heap with a payload buffer at address 0, a tracker at 1, its
  decision cache with two entries at 2 and its per-thread table at 3; the tracker has seen
  two hits and one miss.
\<close>

definition cfg_ex :: sysctl where
  "cfg_ex = \<lparr>g_bxl_enable_cache = 1, g_bxl_disable_cache_min_entries = 1,
             g_bxl_disable_cache_max_hit_pct = 67\<rparr>"

definition heap_ex :: kheap where
  "heap_ex =
     \<lparr>cells = [Some \<lparr>obj = BufferObj [1, 2, 3], retainCount = 2\<rparr>,
               Some \<lparr>obj = PipObj, retainCount = 1\<rparr>,
               Some \<lparr>obj = TrieObj 2, retainCount = 1\<rparr>,
               Some \<lparr>obj = ThreadLocalObj 1, retainCount = 1\<rparr>],
      alloc_script = []\<rparr>"

definition pip_ex :: SandboxedPip where
  "pip_ex =
     \<lparr>clientPid_' = 100, payload_' = Some 0, processId_' = 101, processTreeCount_' = 1,
      counters_' = \<lparr>numCacheHits = 2, numCacheMisses = 1\<rparr>,
      disableCaching_' = False, cacheCallCnt_' = 0,
      fam_' = \<lparr>HasErrors = False, Error = [], PipId = 7\<rparr>,
      oldPathCache_' = None, pathCache_' = Some 2, lastPathLookup_' = Some 3\<rparr>"

text \<open>
  A parser for the examples: a payload is well-formed when it is not empty. And a heap
  that holds a payload buffer only, at address 0.
\<close>

definition fam_init_ex :: "byte list \<Rightarrow> FileAccessManifest" where
  "fam_init_ex bytes = \<lparr>HasErrors = (bytes = []), Error = [], PipId = int (length bytes)\<rparr>"

definition heap_payload :: "byte list \<Rightarrow> bool list \<Rightarrow> kheap" where
  "heap_payload bytes script =
     \<lparr>cells = [Some \<lparr>obj = BufferObj bytes, retainCount = 1\<rparr>], alloc_script = script\<rparr>"


section \<open>Properties of CanonicalizedPath\<close>

text \<open>
  C10: move construction hands the type tag and the string storage of the source over to
  the new value and leaves the source with the tag Null (and without storage), so that
  \<^verbatim>\<open>IsNull()\<close> holds of it.
\<close>

theorem move_transfers_storage:
  "Type (fst (CanonicalizedPath_move p)) = Type p \<and>
   m_value (fst (CanonicalizedPath_move p)) = m_value p \<and>
   IsNull (snd (CanonicalizedPath_move p)) \<and>
   m_value (snd (CanonicalizedPath_move p)) = None"
  by (simp add: CanonicalizedPath_move_def IsNull_def)




section \<open>Properties of the cache governor\<close>

lemma getCount_ex: "Trie_getCount heap_ex (Some 2) = Inr 2"
  by (simp add: Trie_getCount_def cell_at_def heap_ex_def)

lemma PCT_2_1: "PCT 2 1 = Some 66"
  by code_simp



text \<open>
  C5: on a tracker whose caching is already disabled, \<^verbatim>\<open>RefreshDisableCaching\<close> returns
  true and leaves the tracker and the heap as they are: nothing is evaluated, allocated or
  swapped.
\<close>

theorem refresh_when_disabled:
  "disableCaching_' pip \<Longrightarrow> RefreshDisableCaching cfg pip h = Inr (True, pip, h)"
  by (simp add: RefreshDisableCaching_def)

theorem refresh_when_disabled_witness:
  "disableCaching_' (pip_ex\<lparr>disableCaching_' := True\<rparr>) \<and>
   RefreshDisableCaching cfg_ex (pip_ex\<lparr>disableCaching_' := True\<rparr>) heap_ex =
     Inr (True, pip_ex\<lparr>disableCaching_' := True\<rparr>, heap_ex)"
  using refresh_when_disabled [of "pip_ex\<lparr>disableCaching_' := True\<rparr>" cfg_ex heap_ex]
  by simp



text \<open>
  C3 fails where the allocation of the replacement fails: \<^verbatim>\<open>RefreshDisableCaching\<close> does
  not test what \<^verbatim>\<open>Trie::createPathTrie\<close> returned (as \<^verbatim>\<open>init\<close> does), the compare-and-swap
  succeeds, and the active-cache handle is null afterwards.
\<close>

theorem refresh_installs_null_when_allocation_fails:
  "RefreshDisableCaching cfg_ex pip_ex (heap_ex\<lparr>alloc_script := [False]\<rparr>) =
     Inr (True,
          pip_ex\<lparr>disableCaching_' := True, pathCache_' := None, oldPathCache_' := Some 2\<rparr>,
          heap_ex)"
  using getCount_ex PCT_2_1
  by (simp add: RefreshDisableCaching_def ShouldDisableCaching_def RefreshDisableCaching_begin_def
      RefreshDisableCaching_swap_def OSCompareAndSwapPtr_def createPathTrie_def alloc_def
      alloc_succeeds_def Trie_getCount_def cell_at_def heap_ex_def pip_ex_def cfg_ex_def)

text \<open>Runs of operations: the flag, once set, is set in every later state.\<close>

lemma refresh_keeps_flag:
  "RefreshDisableCaching cfg pip h = Inr (r, pip', h') \<Longrightarrow> disableCaching_' pip \<Longrightarrow> disableCaching_' pip'"
  by (simp add: RefreshDisableCaching_def)

lemma exec_op_keeps_flag:
  "exec_op cfg op st = Inr st' \<Longrightarrow> disableCaching_' (fst st) \<Longrightarrow> disableCaching_' (fst st')"
  by (cases op) (auto simp: exec_op_def RefreshDisableCaching_def split: sum.splits)


lemma trace_all_set:
  "disableCaching_' (fst st) \<Longrightarrow> \<forall>b \<in> set (flags (trace_ops cfg ops st)). b"
proof (induction ops arbitrary: st)
  case Nil
  then show ?case by (simp add: flags_def)
next
  case (Cons op ops)
  show ?case
  proof (cases "exec_op cfg op st")
    case (Inl f)
    with Cons.prems show ?thesis by (simp add: flags_def)
  next
    case (Inr st')
    have "disableCaching_' (fst st')" using Inr Cons.prems by (rule exec_op_keeps_flag)
    from Cons.IH [OF this] Inr Cons.prems show ?thesis by (simp add: flags_def)
  qed
qed

lemma rises_all_set: "\<forall>b \<in> set bs. b \<Longrightarrow> rises bs = 0"
  by (induction bs rule: rises.induct) auto

lemma trace_ops_head: "\<exists>rest. trace_ops cfg ops st = st # rest"
  by (cases ops) auto

lemma rises_trace: "rises (flags (trace_ops cfg ops st)) \<le> 1"
proof (induction ops arbitrary: st)
  case Nil
  show ?case by (simp add: flags_def)
next
  case (Cons op ops)
  show ?case
  proof (cases "exec_op cfg op st")
    case (Inl f)
    then show ?thesis by (simp add: flags_def)
  next
    case (Inr st')
    obtain rest where rest: "trace_ops cfg ops st' = st' # rest"
      using trace_ops_head by blast
    show ?thesis
    proof (cases "disableCaching_' (fst st')")
      case True
      then have "rises (flags (trace_ops cfg ops st')) = 0"
        using trace_all_set rises_all_set by blast
      with Inr rest show ?thesis by (simp add: flags_def)
    next
      case False
      with Cons.IH [of st'] Inr rest show ?thesis by (simp add: flags_def)
    qed
  qed
qed

lemma sorted_trace: "sorted (flags (trace_ops cfg ops st))"
proof (induction ops arbitrary: st)
  case Nil
  show ?case by (simp add: flags_def)
next
  case (Cons op ops)
  show ?case
  proof (cases "exec_op cfg op st")
    case (Inl f)
    then show ?thesis by (simp add: flags_def)
  next
    case (Inr st')
    have "\<forall>b \<in> set (flags (trace_ops cfg ops st')). disableCaching_' (fst st) \<le> b"
    proof (cases "disableCaching_' (fst st)")
      case True
      with Inr have "disableCaching_' (fst st')" by (simp add: exec_op_keeps_flag)
      then show ?thesis using trace_all_set [of st' cfg ops] by auto
    next
      case False
      then show ?thesis by simp
    qed
    with Cons.IH [of st'] Inr show ?thesis by (simp add: flags_def)
  qed
qed

text \<open>
  C2: along every run of tracker operations \<^verbatim>\<open>disableCaching_\<close> goes from false to true
  at most once, and once it is true in a state it is true in every later state.
\<close>

theorem flag_never_reverses:
  "rises (flags (trace_ops cfg ops st)) \<le> 1 \<and>
   (\<forall>i j. i \<le> j \<and> j < length (trace_ops cfg ops st) \<and> flags (trace_ops cfg ops st) ! i
      \<longrightarrow> flags (trace_ops cfg ops st) ! j)"
proof -
  have len: "length (flags (trace_ops cfg ops st)) = length (trace_ops cfg ops st)"
    by (simp add: flags_def)
  have mono: "flags (trace_ops cfg ops st) ! i \<longrightarrow> flags (trace_ops cfg ops st) ! j"
    if "i \<le> j" "j < length (trace_ops cfg ops st)" for i j
    using sorted_nth_mono [OF sorted_trace [of cfg ops st], of i j] that len by simp
  show ?thesis using rises_trace [of cfg ops st] mono by blast
qed

lemma flags_trace_ex:
  "flags (trace_ops cfg_ex [OpIntrospect, OpRefreshDisableCaching, OpRefreshDisableCaching, OpIntrospect]
     (pip_ex, heap_ex)) = [False, False, True, True, True]"
  using getCount_ex PCT_2_1
  by (simp add: flags_def exec_op_def introspect_def RefreshDisableCaching_def
      ShouldDisableCaching_def RefreshDisableCaching_begin_def RefreshDisableCaching_swap_def
      OSCompareAndSwapPtr_def createPathTrie_def alloc_def alloc_succeeds_def Trie_getCount_def
      cell_at_def heap_ex_def pip_ex_def cfg_ex_def)

theorem flag_never_reverses_witness:
  "flags (trace_ops cfg_ex [OpIntrospect, OpRefreshDisableCaching, OpRefreshDisableCaching, OpIntrospect]
     (pip_ex, heap_ex)) = [False, False, True, True, True] \<and>
   rises [False, False, True, True, True] \<le> 1 \<and>
   (2::nat) \<le> 4 \<and> [False, False, True, True, True] ! 2 \<and> [False, False, True, True, True] ! 4"
  using flag_never_reverses [of cfg_ex
      "[OpIntrospect, OpRefreshDisableCaching, OpRefreshDisableCaching, OpIntrospect]"
      "(pip_ex, heap_ex)"] flags_trace_ex
  by simp

section \<open>Properties of construction\<close>

lemma alloc_Some:
  "alloc ob h = (Some a, h') \<Longrightarrow>
     alloc_succeeds h 0 \<and> a = length (cells h) \<and>
     cells h' = cells h @ [Some \<lparr>obj = ob, retainCount = 1\<rparr>] \<and>
     alloc_script h' = tl (alloc_script h)"
  by (auto simp: alloc_def Let_def split: if_splits)

lemma init_True:
  "init cfg fam_init cpid ppid payload pip0 h = Inr (True, pip, h') \<Longrightarrow>
   \<exists>h1 bytes trie h2 tbl.
     retain payload h = Inr h1 \<and> Buffer_getBytes h1 payload = Inr bytes \<and>
     \<not> HasErrors (fam_init bytes) \<and>
     createPathTrie h1 = (Some trie, h2) \<and> ThreadLocal_create h2 = (Some tbl, h') \<and>
     pathCache_' pip = Some trie \<and> lastPathLookup_' pip = Some tbl \<and>
     oldPathCache_' pip = None \<and> processTreeCount_' pip = 1 \<and>
     counters_' pip = \<lparr>numCacheHits = 0, numCacheMisses = 0\<rparr> \<and>
     disableCaching_' pip = (g_bxl_enable_cache cfg = 0) \<and>
     payload_' pip = payload \<and> fam_' pip = fam_init bytes \<and>
     clientPid_' pip = cpid \<and> processId_' pip = ppid"
  by (auto simp: init_def OSObject_init_def Let_def split: sum.splits prod.splits if_splits)

lemma create_Some:
  "create cfg fam_init cpid ppid payload h = Inr (Some (this, pip), h') \<Longrightarrow>
   \<exists>h0. alloc PipObj h = (Some this, h0) \<and>
        init cfg fam_init cpid ppid payload SandboxedPip_new h0 = Inr (True, pip, h')"
  by (auto simp: create_def split: prod.splits option.splits sum.splits if_splits)

text \<open>
  C7: a tracker that \<^verbatim>\<open>create\<close> returns has an empty decision cache and a per-thread
  lookup table allocated, hit and miss counters at zero, \<^verbatim>\<open>disableCaching_\<close> true exactly
  when \<^verbatim>\<open>g_bxl_enable_cache\<close> is zero, no retired cache, and tree size 1.
\<close>

theorem create_success_state:
  assumes "create cfg fam_init cpid ppid payload h = Inr (Some (this, pip), h')"
  shows "(\<exists>c t. pathCache_' pip = Some c \<and> cell_at h' c = Some \<lparr>obj = TrieObj 0, retainCount = 1\<rparr> \<and>
            lastPathLookup_' pip = Some t \<and>
            cell_at h' t = Some \<lparr>obj = ThreadLocalObj 0, retainCount = 1\<rparr>) \<and>
         numCacheHits (counters_' pip) = 0 \<and> numCacheMisses (counters_' pip) = 0 \<and>
         disableCaching_' pip = (g_bxl_enable_cache cfg = 0) \<and>
         oldPathCache_' pip = None \<and>
         processTreeCount_' pip = 1"
proof -
  from assms obtain h0 where
    i: "init cfg fam_init cpid ppid payload SandboxedPip_new h0 = Inr (True, pip, h')"
    using create_Some by blast
  from init_True [OF i] obtain h1 trie h2 tbl where
    t: "createPathTrie h1 = (Some trie, h2)" and l: "ThreadLocal_create h2 = (Some tbl, h')"
    and f: "pathCache_' pip = Some trie" "lastPathLookup_' pip = Some tbl"
      "oldPathCache_' pip = None" "processTreeCount_' pip = 1"
      "counters_' pip = \<lparr>numCacheHits = 0, numCacheMisses = 0\<rparr>"
      "disableCaching_' pip = (g_bxl_enable_cache cfg = 0)"
    by blast
  from t have t': "trie = length (cells h1)"
    "cells h2 = cells h1 @ [Some \<lparr>obj = TrieObj 0, retainCount = 1\<rparr>]"
    using alloc_Some [of "TrieObj 0" h1 trie h2] by (simp_all add: createPathTrie_def)
  from l have l': "tbl = length (cells h2)"
    "cells h' = cells h2 @ [Some \<lparr>obj = ThreadLocalObj 0, retainCount = 1\<rparr>]"
    using alloc_Some [of "ThreadLocalObj 0" h2 tbl h'] by (simp_all add: ThreadLocal_create_def)
  have "cell_at h' trie = Some \<lparr>obj = TrieObj 0, retainCount = 1\<rparr>"
    using t' l' by (simp add: cell_at_def nth_append)
  moreover have "cell_at h' tbl = Some \<lparr>obj = ThreadLocalObj 0, retainCount = 1\<rparr>"
    using t' l' by (simp add: cell_at_def nth_append)
  ultimately show ?thesis using f by simp
qed

lemma create_ex:
  "create cfg_ex fam_init_ex 100 101 (Some 0) (heap_payload [1, 2] []) =
     Inr (Some (1, pip_ex\<lparr>counters_' := \<lparr>numCacheHits = 0, numCacheMisses = 0\<rparr>,
                           fam_' := \<lparr>HasErrors = False, Error = [], PipId = 2\<rparr>\<rparr>),
          \<lparr>cells = [Some \<lparr>obj = BufferObj [1, 2], retainCount = 2\<rparr>,
                    Some \<lparr>obj = PipObj, retainCount = 1\<rparr>,
                    Some \<lparr>obj = TrieObj 0, retainCount = 1\<rparr>,
                    Some \<lparr>obj = ThreadLocalObj 0, retainCount = 1\<rparr>],
           alloc_script = []\<rparr>)"
  by (simp add: create_def init_def OSObject_init_def createPathTrie_def ThreadLocal_create_def
      alloc_def alloc_succeeds_def retain_def Buffer_getBytes_def cell_at_def heap_payload_def
      fam_init_ex_def SandboxedPip_new_def pip_ex_def cfg_ex_def Let_def)

theorem create_success_state_witness:
  "create cfg_ex fam_init_ex 100 101 (Some 0) (heap_payload [1, 2] []) =
     Inr (Some (1, pip_ex\<lparr>counters_' := \<lparr>numCacheHits = 0, numCacheMisses = 0\<rparr>,
                           fam_' := \<lparr>HasErrors = False, Error = [], PipId = 2\<rparr>\<rparr>),
          \<lparr>cells = [Some \<lparr>obj = BufferObj [1, 2], retainCount = 2\<rparr>,
                    Some \<lparr>obj = PipObj, retainCount = 1\<rparr>,
                    Some \<lparr>obj = TrieObj 0, retainCount = 1\<rparr>,
                    Some \<lparr>obj = ThreadLocalObj 0, retainCount = 1\<rparr>],
           alloc_script = []\<rparr>) \<and>
   pathCache_' pip_ex = Some 2 \<and> lastPathLookup_' pip_ex = Some 3 \<and>
   \<not> disableCaching_' pip_ex \<and> g_bxl_enable_cache cfg_ex \<noteq> 0 \<and>
   oldPathCache_' pip_ex = None \<and> processTreeCount_' pip_ex = 1"
  using create_success_state [OF create_ex] create_ex
  by (simp add: pip_ex_def cfg_ex_def)

text \<open>The ways in which \<^verbatim>\<open>create\<close> fails, each with the heap it leaves.\<close>

lemma create_no_instance:
  "\<not> alloc_succeeds h 0 \<Longrightarrow>
   create cfg fam_init cpid ppid payload h = Inr (None, h\<lparr>alloc_script := tl (alloc_script h)\<rparr>)"
  by (simp add: create_def alloc_def)

lemma list_update_same: "xs ! i = v \<Longrightarrow> xs[i := v] = xs"
  by auto

lemma create_parse_error:
  assumes "alloc_succeeds h 0" "cell_at h b = Some \<lparr>obj = BufferObj bytes, retainCount = Suc k\<rparr>"
    "HasErrors (fam_init bytes)"
  shows "create cfg fam_init cpid ppid (Some b) h =
     Inr (None, \<lparr>cells = cells h @ [None], alloc_script = tl (alloc_script h)\<rparr>)"
proof (cases h)
  case (fields cs sc)
  from assms(2) fields have b: "b < length cs" "cs ! b = Some \<lparr>obj = BufferObj bytes, retainCount = Suc k\<rparr>"
    by (auto simp: cell_at_def split: if_splits)
  show ?thesis
    using assms(1,3) b fields
    by (simp add: create_def init_def OSObject_init_def alloc_def retain_def Buffer_getBytes_def
        free_def OSSafeReleaseNULL_def release_def cell_at_def SandboxedPip_new_def Let_def
        nth_append list_update_append list_update_same)
qed

lemma create_no_trie:
  assumes "alloc_succeeds h 0" "cell_at h b = Some \<lparr>obj = BufferObj bytes, retainCount = Suc k\<rparr>"
    "\<not> HasErrors (fam_init bytes)" "\<not> alloc_succeeds h 1"
  shows "create cfg fam_init cpid ppid (Some b) h =
     Inr (None, \<lparr>cells = cells h @ [None], alloc_script = tl (tl (alloc_script h))\<rparr>)"
proof (cases h)
  case (fields cs sc)
  from assms(2) fields have b: "b < length cs" "cs ! b = Some \<lparr>obj = BufferObj bytes, retainCount = Suc k\<rparr>"
    by (auto simp: cell_at_def split: if_splits)
  from assms(4) fields have 1: "\<not> alloc_succeeds \<lparr>cells = c, alloc_script = tl sc\<rparr> 0" for c
    by (simp add: alloc_succeeds_def drop_Suc)
  show ?thesis
    using assms(1,3) b fields 1
    by (simp add: create_def init_def OSObject_init_def alloc_def retain_def Buffer_getBytes_def
        createPathTrie_def
        free_def OSSafeReleaseNULL_def release_def cell_at_def SandboxedPip_new_def Let_def
        nth_append list_update_append list_update_same)
qed

lemma create_no_table:
  assumes "alloc_succeeds h 0" "cell_at h b = Some \<lparr>obj = BufferObj bytes, retainCount = Suc k\<rparr>"
    "\<not> HasErrors (fam_init bytes)" "alloc_succeeds h 1" "\<not> alloc_succeeds h 2"
  shows "create cfg fam_init cpid ppid (Some b) h =
     Inr (None, \<lparr>cells = cells h @ [None, None], alloc_script = tl (tl (tl (alloc_script h)))\<rparr>)"
proof (cases h)
  case (fields cs sc)
  from assms(2) fields have b: "b < length cs" "cs ! b = Some \<lparr>obj = BufferObj bytes, retainCount = Suc k\<rparr>"
    by (auto simp: cell_at_def split: if_splits)
  from assms(4) fields have 1: "alloc_succeeds \<lparr>cells = c, alloc_script = tl sc\<rparr> 0" for c
    by (simp add: alloc_succeeds_def drop_Suc)
  from assms(5) fields have 2: "\<not> alloc_succeeds \<lparr>cells = c, alloc_script = tl (tl sc)\<rparr> 0" for c
    by (simp add: alloc_succeeds_def drop_Suc numeral_2_eq_2)
  show ?thesis
    using assms(1,3) b fields 1 2
    by (simp add: create_def init_def OSObject_init_def alloc_def retain_def Buffer_getBytes_def
        createPathTrie_def ThreadLocal_create_def
        free_def OSSafeReleaseNULL_def release_def cell_at_def SandboxedPip_new_def Let_def
        nth_append list_update_append list_update_same)
qed

lemma cell_at_padded: "cell_at \<lparr>cells = cells h @ replicate n None, alloc_script = s\<rparr> a = cell_at h a"
  by (simp add: cell_at_def nth_append)

text \<open>
  C6: given a live payload buffer, \<^verbatim>\<open>create\<close> returns null when the manifest parser
  reports an error, and when the allocation of the instance, of the decision cache or of
  the per-thread table fails; afterwards every address of the heap holds what it held
  before the call, so neither the instance nor anything it allocated or retained is left.
\<close>

theorem create_failure_leaves_nothing:
  assumes "cell_at h b = Some \<lparr>obj = BufferObj bytes, retainCount = Suc k\<rparr>"
    and "\<not> alloc_succeeds h 0 \<or> HasErrors (fam_init bytes) \<or> \<not> alloc_succeeds h 1 \<or> \<not> alloc_succeeds h 2"
  shows "\<exists>h'. create cfg fam_init cpid ppid (Some b) h = Inr (None, h') \<and>
              (\<forall>a. cell_at h' a = cell_at h a)"
proof -
  consider "\<not> alloc_succeeds h 0"
    | "alloc_succeeds h 0" "HasErrors (fam_init bytes)"
    | "alloc_succeeds h 0" "\<not> HasErrors (fam_init bytes)" "\<not> alloc_succeeds h 1"
    | "alloc_succeeds h 0" "\<not> HasErrors (fam_init bytes)" "alloc_succeeds h 1" "\<not> alloc_succeeds h 2"
    using assms(2) by blast
  then show ?thesis
  proof cases
    case 1
    then show ?thesis by (simp add: create_no_instance cell_at_def)
  next
    case 2
    then show ?thesis
      using create_parse_error [OF _ assms(1)] cell_at_padded [of h 1] by simp
  next
    case 3
    then show ?thesis
      using create_no_trie [OF _ assms(1)] cell_at_padded [of h 1] by simp
  next
    case 4
    then show ?thesis
      using create_no_table [OF _ assms(1)] cell_at_padded [of h 2] by (simp add: numeral_2_eq_2)
  qed
qed

theorem create_failure_leaves_nothing_witness:
  "HasErrors (fam_init_ex []) \<and>
   (\<exists>h'. create cfg_ex fam_init_ex 100 101 (Some 0) (heap_payload [] []) = Inr (None, h') \<and>
         (\<forall>a. cell_at h' a = cell_at (heap_payload [] []) a)) \<and>
   \<not> alloc_succeeds (heap_payload [1] [True, False]) 1 \<and>
   (\<exists>h'. create cfg_ex fam_init_ex 100 101 (Some 0) (heap_payload [1] [True, False]) = Inr (None, h') \<and>
         (\<forall>a. cell_at h' a = cell_at (heap_payload [1] [True, False]) a)) \<and>
   \<not> alloc_succeeds (heap_payload [1] [True, True, False]) 2 \<and>
   (\<exists>h'. create cfg_ex fam_init_ex 100 101 (Some 0) (heap_payload [1] [True, True, False]) = Inr (None, h') \<and>
         (\<forall>a. cell_at h' a = cell_at (heap_payload [1] [True, True, False]) a))"
proof -
  have live: "cell_at (heap_payload bs sc) 0 = Some \<lparr>obj = BufferObj bs, retainCount = Suc 0\<rparr>" for bs sc
    by (simp add: heap_payload_def cell_at_def)
  have e: "HasErrors (fam_init_ex [])"
    by (simp add: fam_init_ex_def)
  have t: "\<not> alloc_succeeds (heap_payload [1] [True, False]) 1"
    by (simp add: heap_payload_def alloc_succeeds_def)
  have l: "\<not> alloc_succeeds (heap_payload [1] [True, True, False]) 2"
    by (simp add: heap_payload_def alloc_succeeds_def)
  show ?thesis
    using e t l
      create_failure_leaves_nothing [OF live [of "[]" "[]"],
        where fam_init = fam_init_ex and cfg = cfg_ex and cpid = 100 and ppid = 101]
      create_failure_leaves_nothing [OF live [of "[1]" "[True, False]"],
        where fam_init = fam_init_ex and cfg = cfg_ex and cpid = 100 and ppid = 101]
      create_failure_leaves_nothing [OF live [of "[1]" "[True, True, False]"],
        where fam_init = fam_init_ex and cfg = cfg_ex and cpid = 100 and ppid = 101]
    by simp
qed

section \<open>The governor under its caller\<close>

lemma PCT_defined: "0 < a + b \<Longrightarrow> PCT a b \<noteq> None"
  by (simp add: PCT_def)

lemma should_disable_divisor:
  "0 < numCacheHits (counters_' pip) + numCacheMisses (counters_' pip) \<Longrightarrow>
   ShouldDisableCaching cfg pip h \<noteq> Inl ZeroDivisor"
  using PCT_defined [of "numCacheHits (counters_' pip)" "numCacheMisses (counters_' pip)"]
  by (auto simp: ShouldDisableCaching_def Trie_getCount_def
      split: sum.splits option.splits object.splits)

lemma refresh_divisor:
  "0 < numCacheHits (counters_' pip) + numCacheMisses (counters_' pip) \<Longrightarrow>
   RefreshDisableCaching cfg pip h \<noteq> Inl ZeroDivisor"
  using should_disable_divisor [of pip cfg h]
  by (auto simp: RefreshDisableCaching_def split: sum.splits prod.splits)

lemma count_probe_positive: "0 < numCacheHits (count_probe p c) + numCacheMisses (count_probe p c)"
  by (cases p) (simp_all add: count_probe_def)

lemma governor_probe_divisor: "governor_probe cfg p st \<noteq> Inl ZeroDivisor"
proof -
  have "RefreshDisableCaching cfg ((fst st)\<lparr>counters_' := count_probe p (counters_' (fst st))\<rparr>) h
      \<noteq> Inl ZeroDivisor" for h
    using count_probe_positive [of p "counters_' (fst st)"] by (intro refresh_divisor) simp
  then show ?thesis
    by (auto simp: governor_probe_def Let_def split: sum.splits)
qed

text \<open>
  C9: the caller counts the probe before it evaluates the governor, so in every run of
  probes, from any state, no evaluation finds \<open>hits + misses = 0\<close> when it computes the
  percentage.
\<close>

theorem governed_divisor_nonzero: "run_probes cfg ps st \<noteq> Inl ZeroDivisor"
proof (induction ps arbitrary: st)
  case Nil
  show ?case by simp
next
  case (Cons p ps)
  show ?case
  proof (cases "governor_probe cfg p st")
    case (Inl f)
    with governor_probe_divisor [of cfg p st] show ?thesis by simp
  next
    case (Inr st')
    with Cons.IH [of st'] show ?thesis by simp
  qed
qed

end
